theory Spec2Isabelle
  imports Main "HOL-Library.Sublist" "HOL-Library.Word"
begin

section \<open>The Jira epic collector (plugins/jira/tasks/epic_collector.go)\<close>

text \<open>
  The file configures the generic API collector for Jira epics: it opens a cursor over the
  epic keys of a board, builds the JQL ordering/time clause, and hands a \<open>Query\<close> closure and
  a \<open>ResponseParser\<close> closure to \<open>helper.NewApiCollector\<close>. Strings are byte strings, as Go's
  are.
\<close>

subsection \<open>Library functions the closures call\<close>

text \<open>\<open>strings.Join(elems, sep)\<close>.\<close>

fun Join :: "string list \<Rightarrow> string \<Rightarrow> string" where
  "Join [] sep = []"
| "Join [x] sep = x"
| "Join (x # y # ys) sep = x @ sep @ Join (y # ys) sep"

text \<open>The decimal digits of a natural number, most significant first.\<close>

definition digit_char :: "nat \<Rightarrow> char" where
  "digit_char d = ''0123456789'' ! d"

function digits :: "nat \<Rightarrow> string" where
  "digits n = (if n < 10 then [digit_char n] else digits (n div 10) @ [digit_char (n mod 10)])"
  by pat_completeness auto
termination
  by (relation "measure id") auto

declare digits.simps [simp del]

text \<open>\<open>fmt.Sprintf("%v", x)\<close> for \<open>x\<close> of type \<open>int\<close>: the decimal rendering with a minus sign.\<close>

definition Sprintf_v :: "int \<Rightarrow> string" where
  "Sprintf_v x = (if x < 0 then ''-'' @ digits (nat (- x)) else digits (nat x))"

text \<open>
  \<open>appendInt(b, x, width)\<close> of package \<open>time\<close>: the decimal rendering of \<open>x\<close>, zero-padded on
  the left to at least \<open>width\<close> digits, after the sign.
\<close>

definition appendInt :: "int \<Rightarrow> nat \<Rightarrow> string" where
  "appendInt x width =
     (if x < 0 then ''-'' else []) @
     replicate (width - length (digits (nat \<bar>x\<bar>))) (CHR ''0'') @ digits (nat \<bar>x\<bar>)"

text \<open>
  A \<open>time.Time\<close>, as the calendar fields that \<open>Format\<close> reads from it (in the time's own
  location). \<open>Format_2006_01_02_15_04\<close> is \<open>t.Format("2006/01/02 15:04")\<close>: the layout is the
  four-digit year, the two-digit month, the two-digit day, the two-digit hour (24h) and the
  two-digit minute, with the separators copied.
\<close>

record Time =
  Year :: int
  Month :: nat
  Day :: nat
  Hour :: nat
  Minute :: nat

definition Format_2006_01_02_15_04 :: "Time \<Rightarrow> string" where
  "Format_2006_01_02_15_04 t =
     appendInt (Year t) 4 @ ''/'' @ appendInt (int (Month t)) 2 @ ''/'' @
     appendInt (int (Day t)) 2 @ '' '' @ appendInt (int (Hour t)) 2 @ '':'' @
     appendInt (int (Minute t)) 2"

text \<open>
  \<open>url.Values\<close> is \<open>map[string][]string\<close>; \<open>Set\<close> replaces the values of a key by the single
  given one.
\<close>

type_synonym Values = "string \<rightharpoonup> string list"

definition Set_value :: "Values \<Rightarrow> string \<Rightarrow> string \<Rightarrow> Values" where
  "Set_value v key val = v(key \<mapsto> [val])"

subsection \<open>JSON, as encoding/json scans it\<close>

text \<open>Bytes and the character classes of the scanner (\<open>isSpace\<close> of scanner.go; digits and
  hexadecimal digits).\<close>

definition byte :: "char \<Rightarrow> nat" where
  "byte c = of_char c"

definition in_range :: "char \<Rightarrow> nat \<Rightarrow> nat \<Rightarrow> bool" where
  "in_range c lo hi = (lo \<le> byte c \<and> byte c \<le> hi)"

definition isSpace :: "char \<Rightarrow> bool" where
  "isSpace c = (c = CHR '' '' \<or> c = CHR 0x09 \<or> c = CHR 0x0D \<or> c = CHR 0x0A)"

definition isDigit :: "char \<Rightarrow> bool" where
  "isDigit c = in_range c 0x30 0x39"

definition isHex :: "char \<Rightarrow> bool" where
  "isHex c = (in_range c 0x30 0x39 \<or> in_range c 0x61 0x66 \<or> in_range c 0x41 0x46)"

text \<open>
  A JSON value as the decoder sees it. An element of an array carries the bytes it was
  scanned from (what a \<open>json.RawMessage\<close> receives); a member of an object carries its key,
  as the bytes between the quotes, and the bytes of its value.
\<close>

datatype json =
    JNull
  | JBool bool
  | JNumber
  | JString string
  | JArray "(string \<times> json) list"
  | JObject "(string \<times> string \<times> json) list"

text \<open>
  The outcome of scanning. The recursive-descent functions below run on fuel, one unit per
  call; \<open>OutOfFuel\<close> is told apart from \<open>Invalid\<close> so that "the fuel suffices" can be stated.
\<close>

datatype 'a scan = OutOfFuel | Invalid | Valid 'a

text \<open>
  A string, after its opening quote: the bytes up to the closing quote and the rest. The
  scanner accepts the escapes \<open>b f n r t \ / "\<close> and \<open>u\<close> with four hexadecimal digits, and
  refuses a control byte (below 0x20).
\<close>

fun scan_string :: "string \<Rightarrow> (string \<times> string) option" where
  "scan_string [] = None"
| "scan_string (c # cs) =
     (if c = CHR 0x22 then Some ([], cs)
      else if c = CHR 0x5C then
        (case cs of
           [] \<Rightarrow> None
         | e # cs1 \<Rightarrow>
             if e \<in> set [CHR ''b'', CHR ''f'', CHR ''n'', CHR ''r'', CHR ''t'', CHR 0x5C, CHR ''/'', CHR 0x22]
             then map_option (\<lambda>(s, r). (c # e # s, r)) (scan_string cs1)
             else if e = CHR ''u'' then
               (case cs1 of
                  h1 # h2 # h3 # h4 # cs2 \<Rightarrow>
                    if isHex h1 \<and> isHex h2 \<and> isHex h3 \<and> isHex h4
                    then map_option (\<lambda>(s, r). (c # e # h1 # h2 # h3 # h4 # s, r)) (scan_string cs2)
                    else None
                | _ \<Rightarrow> None)
             else None)
      else if byte c < 0x20 then None
      else map_option (\<lambda>(s, r). (c # s, r)) (scan_string cs))"

text \<open>
  A number: an optional minus, \<open>0\<close> or a non-zero digit followed by digits, an optional
  fraction (a dot and at least one digit), an optional exponent (\<open>e\<close> or \<open>E\<close>, an optional sign,
  at least one digit). The functions return the rest of the input.
\<close>

definition scan_exp :: "string \<Rightarrow> string option" where
  "scan_exp s =
     (case s of
        [] \<Rightarrow> Some s
      | c # r \<Rightarrow>
          if c = CHR ''e'' \<or> c = CHR ''E'' then
            (let r2 = (case r of [] \<Rightarrow> [] | sg # t \<Rightarrow> if sg = CHR ''+'' \<or> sg = CHR ''-'' then t else r)
             in case r2 of
                  [] \<Rightarrow> None
                | d # t \<Rightarrow> if isDigit d then Some (dropWhile isDigit t) else None)
          else Some s)"

definition scan_frac :: "string \<Rightarrow> string option" where
  "scan_frac s =
     (case s of
        [] \<Rightarrow> scan_exp s
      | c # r \<Rightarrow>
          if c = CHR ''.'' then
            (case r of
               [] \<Rightarrow> None
             | d # t \<Rightarrow> if isDigit d then scan_exp (dropWhile isDigit t) else None)
          else scan_exp s)"

definition scan_number :: "string \<Rightarrow> string option" where
  "scan_number s =
     (let s1 = (case s of [] \<Rightarrow> [] | c # r \<Rightarrow> if c = CHR ''-'' then r else s)
      in case s1 of
           [] \<Rightarrow> None
         | c # r \<Rightarrow>
             if c = CHR ''0'' then scan_frac r
             else if isDigit c then scan_frac (dropWhile isDigit r)
             else None)"

text \<open>The literals \<open>true\<close>, \<open>false\<close> and \<open>null\<close>.\<close>

definition scan_literal :: "string \<Rightarrow> string \<Rightarrow> string option" where
  "scan_literal lit s = (if take (length lit) s = lit then Some (drop (length lit) s) else None)"

text \<open>The scanner refuses more than \<open>maxNestingDepth\<close> open arrays and objects.\<close>

definition maxNestingDepth :: nat where
  "maxNestingDepth = 10000"

text \<open>The bytes of \<open>s\<close> before its suffix \<open>rest\<close>.\<close>

definition consumed :: "string \<Rightarrow> string \<Rightarrow> string" where
  "consumed s rest = take (length s - length rest) s"

text \<open>
  The grammar of scanner.go as a recursive descent: a value (after white space), the
  elements of an array up to its closing bracket, the members of an object up to its closing
  brace. \<open>depth\<close> counts the arrays and objects that are open.
\<close>

fun parse_value :: "nat \<Rightarrow> nat \<Rightarrow> string \<Rightarrow> ((string \<times> json) \<times> string) scan"
  and parse_elems :: "nat \<Rightarrow> nat \<Rightarrow> string \<Rightarrow> ((string \<times> json) list \<times> string) scan"
  and parse_members :: "nat \<Rightarrow> nat \<Rightarrow> string \<Rightarrow> ((string \<times> string \<times> json) list \<times> string) scan"
where
  "parse_value 0 depth s = OutOfFuel"
| "parse_value (Suc n) depth s =
     (let s0 = dropWhile isSpace s in
      case s0 of
        [] \<Rightarrow> Invalid
      | c # cs \<Rightarrow>
          if c = CHR ''{'' then
            (if maxNestingDepth \<le> depth then Invalid
             else case dropWhile isSpace cs of
                    [] \<Rightarrow> Invalid
                  | c1 # r \<Rightarrow>
                      if c1 = CHR ''}'' then Valid ((consumed s0 r, JObject []), r)
                      else (case parse_members n (Suc depth) cs of
                              OutOfFuel \<Rightarrow> OutOfFuel
                            | Invalid \<Rightarrow> Invalid
                            | Valid (ms, r) \<Rightarrow> Valid ((consumed s0 r, JObject ms), r)))
          else if c = CHR ''['' then
            (if maxNestingDepth \<le> depth then Invalid
             else case dropWhile isSpace cs of
                    [] \<Rightarrow> Invalid
                  | c1 # r \<Rightarrow>
                      if c1 = CHR '']'' then Valid ((consumed s0 r, JArray []), r)
                      else (case parse_elems n (Suc depth) cs of
                              OutOfFuel \<Rightarrow> OutOfFuel
                            | Invalid \<Rightarrow> Invalid
                            | Valid (es, r) \<Rightarrow> Valid ((consumed s0 r, JArray es), r)))
          else if c = CHR 0x22 then
            (case scan_string cs of
               None \<Rightarrow> Invalid
             | Some (str, r) \<Rightarrow> Valid ((consumed s0 r, JString str), r))
          else if c = CHR ''-'' \<or> isDigit c then
            (case scan_number s0 of
               None \<Rightarrow> Invalid
             | Some r \<Rightarrow> Valid ((consumed s0 r, JNumber), r))
          else if c = CHR ''t'' then
            (case scan_literal ''true'' s0 of
               None \<Rightarrow> Invalid
             | Some r \<Rightarrow> Valid ((consumed s0 r, JBool True), r))
          else if c = CHR ''f'' then
            (case scan_literal ''false'' s0 of
               None \<Rightarrow> Invalid
             | Some r \<Rightarrow> Valid ((consumed s0 r, JBool False), r))
          else if c = CHR ''n'' then
            (case scan_literal ''null'' s0 of
               None \<Rightarrow> Invalid
             | Some r \<Rightarrow> Valid ((consumed s0 r, JNull), r))
          else Invalid)"
| "parse_elems 0 depth s = OutOfFuel"
| "parse_elems (Suc n) depth s =
     (case parse_value n depth s of
        OutOfFuel \<Rightarrow> OutOfFuel
      | Invalid \<Rightarrow> Invalid
      | Valid (v, r) \<Rightarrow>
          (case dropWhile isSpace r of
             [] \<Rightarrow> Invalid
           | c # r1 \<Rightarrow>
               if c = CHR '','' then
                 (case parse_elems n depth r1 of
                    OutOfFuel \<Rightarrow> OutOfFuel
                  | Invalid \<Rightarrow> Invalid
                  | Valid (vs, r2) \<Rightarrow> Valid (v # vs, r2))
               else if c = CHR '']'' then Valid ([v], r1)
               else Invalid))"
| "parse_members 0 depth s = OutOfFuel"
| "parse_members (Suc n) depth s =
     (case dropWhile isSpace s of
        [] \<Rightarrow> Invalid
      | q # cs \<Rightarrow>
          if q \<noteq> CHR 0x22 then Invalid
          else (case scan_string cs of
                  None \<Rightarrow> Invalid
                | Some (key, r) \<Rightarrow>
                    (case dropWhile isSpace r of
                       [] \<Rightarrow> Invalid
                     | col # r1 \<Rightarrow>
                         if col \<noteq> CHR '':'' then Invalid
                         else (case parse_value n depth r1 of
                                 OutOfFuel \<Rightarrow> OutOfFuel
                               | Invalid \<Rightarrow> Invalid
                               | Valid ((raw, v), r2) \<Rightarrow>
                                   (case dropWhile isSpace r2 of
                                      [] \<Rightarrow> Invalid
                                    | c # r3 \<Rightarrow>
                                        if c = CHR '','' then
                                          (case parse_members n depth r3 of
                                             OutOfFuel \<Rightarrow> OutOfFuel
                                           | Invalid \<Rightarrow> Invalid
                                           | Valid (ms, r4) \<Rightarrow> Valid ((key, raw, v) # ms, r4))
                                        else if c = CHR ''}'' then Valid ([(key, raw, v)], r3)
                                        else Invalid)))))"

text \<open>
  \<open>checkValid\<close> on the whole input: one value, white space around it and nothing else. An
  input of \<open>n\<close> bytes needs at most \<open>2 * n + 1\<close> units of fuel.
\<close>

definition checkValid_parse :: "string \<Rightarrow> json scan" where
  "checkValid_parse s =
     (case parse_value (2 * length s + 1) 0 s of
        OutOfFuel \<Rightarrow> OutOfFuel
      | Invalid \<Rightarrow> Invalid
      | Valid ((raw, v), r) \<Rightarrow> if dropWhile isSpace r = [] then Valid v else Invalid)"


subsection \<open>Object keys and the field they name\<close>

text \<open>utf8.DecodeRune: the width of the valid encoding at the head of the bytes, 0 when the
  head byte starts no valid encoding.\<close>

definition rune_width :: "string \<Rightarrow> nat" where
  "rune_width s =
     (case s of
        [] \<Rightarrow> 0
      | b0 # r0 \<Rightarrow>
          if byte b0 < 0x80 then 1
          else (case r0 of
                  [] \<Rightarrow> 0
                | b1 # r1 \<Rightarrow>
                    if in_range b0 0xC2 0xDF then (if in_range b1 0x80 0xBF then 2 else 0)
                    else (case r1 of
                            [] \<Rightarrow> 0
                          | b2 # r2 \<Rightarrow>
                              if in_range b0 0xE0 0xEF then
                                (if in_range b1 (if byte b0 = 0xE0 then 0xA0 else 0x80)
                                      (if byte b0 = 0xED then 0x9F else 0xBF)
                                    \<and> in_range b2 0x80 0xBF
                                 then 3 else 0)
                              else (case r2 of
                                      [] \<Rightarrow> 0
                                    | b3 # r3 \<Rightarrow>
                                        if in_range b0 0xF0 0xF4
                                          \<and> in_range b1 (if byte b0 = 0xF0 then 0x90 else 0x80)
                                                (if byte b0 = 0xF4 then 0x8F else 0xBF)
                                          \<and> in_range b2 0x80 0xBF \<and> in_range b3 0x80 0xBF
                                        then 4 else 0))))"

definition RuneError :: nat where
  "RuneError = 0xFFFD"

text \<open>utf8.EncodeRune.\<close>

definition EncodeRune :: "nat \<Rightarrow> string" where
  "EncodeRune r0 =
     (let r = (if 0x10FFFF < r0 \<or> (0xD800 \<le> r0 \<and> r0 \<le> 0xDFFF) then RuneError else r0) in
      if r < 0x80 then [char_of r]
      else if r < 0x800 then [char_of (0xC0 + r div 64), char_of (0x80 + r mod 64)]
      else if r < 0x10000 then
        [char_of (0xE0 + r div 4096), char_of (0x80 + (r div 64) mod 64), char_of (0x80 + r mod 64)]
      else
        [char_of (0xF0 + r div 262144), char_of (0x80 + (r div 4096) mod 64),
         char_of (0x80 + (r div 64) mod 64), char_of (0x80 + r mod 64)])"

definition hex_val :: "char \<Rightarrow> nat" where
  "hex_val c =
     (if in_range c 0x30 0x39 then byte c - 0x30
      else if in_range c 0x61 0x66 then byte c - 0x61 + 10
      else byte c - 0x41 + 10)"

text \<open>getu4, on the four hex digits after the backslash and the u; -1 is None.\<close>

definition getu4 :: "string \<Rightarrow> nat option" where
  "getu4 s =
     (case s of
        b # u # h1 # h2 # h3 # h4 # r \<Rightarrow>
          if b = CHR 0x5C \<and> u = CHR ''u'' \<and> isHex h1 \<and> isHex h2 \<and> isHex h3 \<and> isHex h4
          then Some (((hex_val h1 * 16 + hex_val h2) * 16 + hex_val h3) * 16 + hex_val h4)
          else None
      | _ \<Rightarrow> None)"

definition IsSurrogate :: "nat \<Rightarrow> bool" where
  "IsSurrogate r = (0xD800 \<le> r \<and> r < 0xE000)"

text \<open>utf16.DecodeRune.\<close>

definition utf16_DecodeRune :: "nat \<Rightarrow> nat \<Rightarrow> nat" where
  "utf16_DecodeRune r1 r2 =
     (if 0xD800 \<le> r1 \<and> r1 < 0xDC00 \<and> 0xDC00 \<le> r2 \<and> r2 < 0xE000
      then (r1 - 0xD800) * 1024 + (r2 - 0xDC00) + 0x10000
      else RuneError)"

definition escape_byte :: "char \<Rightarrow> char" where
  "escape_byte e =
     (if e = CHR ''b'' then CHR 0x08
      else if e = CHR ''f'' then CHR 0x0C
      else if e = CHR ''n'' then CHR 0x0A
      else if e = CHR ''r'' then CHR 0x0D
      else if e = CHR ''t'' then CHR 0x09
      else e)"

text \<open>
  \<open>unquoteBytes\<close> of decode.go, on the bytes between the quotes of a scanned string: escapes
  are replaced, a \<open>\u\<close> escape by the UTF-8 encoding of its rune (a surrogate pair by the rune
  it encodes, a lone surrogate by U+FFFD), and a byte that starts no valid UTF-8 encoding by
  U+FFFD.
\<close>

function unquote :: "string \<Rightarrow> string" where
  "unquote [] = []"
| "unquote (c # cs) =
     (if c = CHR 0x5C then
        (case cs of
           [] \<Rightarrow> []
         | e # cs1 \<Rightarrow>
             if e = CHR ''u'' then
               (case getu4 (c # cs) of
                  None \<Rightarrow> []
                | Some rr \<Rightarrow>
                    if IsSurrogate rr then
                      (case getu4 (drop 4 cs1) of
                         None \<Rightarrow> EncodeRune RuneError @ unquote (drop 4 cs1)
                       | Some rr1 \<Rightarrow>
                           if utf16_DecodeRune rr rr1 \<noteq> RuneError
                           then EncodeRune (utf16_DecodeRune rr rr1) @ unquote (drop 10 cs1)
                           else EncodeRune RuneError @ unquote (drop 4 cs1))
                    else EncodeRune rr @ unquote (drop 4 cs1))
             else escape_byte e # unquote cs1)
      else if byte c < 0x80 then c # unquote cs
      else if rune_width (c # cs) = 0 then EncodeRune RuneError @ unquote cs
      else take (rune_width (c # cs)) (c # cs) @ unquote (drop (rune_width (c # cs) - 1) cs))"
  by pat_completeness auto
termination
  by (relation "measure length") auto

text \<open>\<open>b & caseMask\<close>: the byte with bit 0x20 cleared.\<close>

definition caseMask :: "char \<Rightarrow> nat" where
  "caseMask c = (if (byte c div 32) mod 2 = 1 then byte c - 32 else byte c)"

text \<open>equalFoldRight of encoding/json (fold.go): the folding used for a field name with an
  s or a k.\<close>

fun equalFoldRight :: "string \<Rightarrow> string \<Rightarrow> bool" where
  "equalFoldRight [] t = (t = [])"
| "equalFoldRight (sb # s) t =
     (case t of
        [] \<Rightarrow> False
      | tb # t1 \<Rightarrow>
          if byte tb < 0x80 then
            (if sb \<noteq> tb \<and> \<not> (0x41 \<le> caseMask sb \<and> caseMask sb \<le> 0x5A \<and> caseMask sb = caseMask tb)
             then False else equalFoldRight s t1)
          else if (sb = CHR ''s'' \<or> sb = CHR ''S'') \<and> take 2 t = [CHR 0xC5, CHR 0xBF]
            then equalFoldRight s (drop 2 t)
          else if (sb = CHR ''k'' \<or> sb = CHR ''K'') \<and> take 3 t = [CHR 0xE2, CHR 0x84, CHR 0xAA]
            then equalFoldRight s (drop 3 t)
          else False)"

text \<open>
  The decoder's choice of the struct field for a key, for the only field of the target,
  \<open>Issues\<close> with the tag \<open>json:"issues"\<close>: the key names it when it equals the name or folds
  to it (\<open>i\<close>/\<open>I\<close>, \<open>s\<close>/\<open>S\<close>/U+017F, \<open>u\<close>/\<open>U\<close>, \<open>e\<close>/\<open>E\<close>).
\<close>

definition issues_field :: "string \<Rightarrow> bool" where
  "issues_field key = (unquote key = ''issues'' \<or> equalFoldRight ''issues'' (unquote key))"


subsection \<open>Decoding the response\<close>

text \<open>The Go \<open>error\<close> values of \<open>io.ReadAll\<close> and \<open>json.Unmarshal\<close>.\<close>

datatype go_error = ReadFailure string | SyntaxError | UnmarshalTypeError string

text \<open>
  \<open>errors.Error\<close>: an error raised by a collaborator, a converted Go \<open>error\<close>
  (\<open>errors.Convert\<close>), or an error wrapped with a message (\<open>errors.Default.Wrap\<close>).
\<close>

datatype Error =
    Raised string
  | Convert go_error
  | Wrap Error string

text \<open>The \<open>Value\<close> of an \<open>UnmarshalTypeError\<close>.\<close>

fun value_kind :: "json \<Rightarrow> string" where
  "value_kind JNull = ''null''"
| "value_kind (JBool b) = ''bool''"
| "value_kind JNumber = ''number''"
| "value_kind (JString s) = ''string''"
| "value_kind (JArray es) = ''array''"
| "value_kind (JObject ms) = ''object''"

text \<open>
  \<open>json.Unmarshal(blob, &data)\<close> for \<open>data\<close> of type
  \<open>struct { Issues []json.RawMessage `json:"issues"` }\<close>. The decoder walks the members of
  the object in order; a member that names the field stores into it (an array stores the
  bytes of its elements, \<open>null\<close> the nil slice, modelled as the empty list; any other value
  is a type error); the first type error is saved and returned at the end. A top-level
  \<open>null\<close> leaves \<open>data\<close> alone, any other top-level value that is no object is a type error.
\<close>

record decodeState =
  Issues :: "string list"
  savedError :: "go_error option"

definition saveError :: "go_error \<Rightarrow> decodeState \<Rightarrow> decodeState" where
  "saveError err d = (if savedError d = None then d\<lparr>savedError := Some err\<rparr> else d)"

definition store_Issues :: "json \<Rightarrow> decodeState \<Rightarrow> decodeState" where
  "store_Issues v d =
     (case v of
        JArray es \<Rightarrow> d\<lparr>Issues := map fst es\<rparr>
      | JNull \<Rightarrow> d\<lparr>Issues := []\<rparr>
      | _ \<Rightarrow> saveError (UnmarshalTypeError (value_kind v)) d)"

fun object_loop :: "(string \<times> string \<times> json) list \<Rightarrow> decodeState \<Rightarrow> decodeState" where
  "object_loop [] d = d"
| "object_loop ((key, raw, v) # ms) d =
     object_loop ms (if issues_field key then store_Issues v d else d)"

definition Unmarshal :: "string \<Rightarrow> string list \<times> go_error option" where
  "Unmarshal blob =
     (case checkValid_parse blob of
        Valid v \<Rightarrow>
          (case v of
             JObject ms \<Rightarrow>
               (let d = object_loop ms \<lparr>Issues = [], savedError = None\<rparr>
                in (Issues d, savedError d))
           | JNull \<Rightarrow> ([], None)
           | _ \<Rightarrow> ([], Some (UnmarshalTypeError (value_kind v))))
      | _ \<Rightarrow> ([], Some SyntaxError))"

text \<open>
  The body of an \<open>http.Response\<close> as a reader: chunks of bytes ending in EOF or in a read
  error. \<open>io.ReadAll\<close> returns the bytes read and the error, if any.
\<close>

datatype Reader = EOF | Fails string | Data string Reader

fun ReadAll :: "Reader \<Rightarrow> string \<times> go_error option" where
  "ReadAll EOF = ([], None)"
| "ReadAll (Fails msg) = ([], Some (ReadFailure msg))"
| "ReadAll (Data b r) = (case ReadAll r of (bs, err) \<Rightarrow> (b @ bs, err))"

text \<open>The \<open>ResponseParser\<close> closure; a nil slice is the empty list.\<close>

record Response =
  Body :: Reader

definition ResponseParser :: "Response \<Rightarrow> string list \<times> Error option" where
  "ResponseParser res =
     (case ReadAll (Body res) of
        (blob, Some err) \<Rightarrow> ([], Some (Convert err))
      | (blob, None) \<Rightarrow>
          (case Unmarshal blob of
             (issues, Some err) \<Rightarrow> ([], Some (Convert err))
           | (issues, None) \<Rightarrow> (issues, None)))"

subsection \<open>Dynamic values and panics\<close>

text \<open>
  A value of type \<open>interface{}\<close>, by its dynamic type: the nil interface, a \<open>*string\<close> (nil or
  pointing to a string), a \<open>[]interface{}\<close>, or a value of any other dynamic type (named by
  that type).
\<close>

datatype go_value =
    NilIface
  | StringPtr "string option"
  | SliceIface "go_value list"
  | OtherValue string

text \<open>The run-time panics the closure can raise.\<close>

datatype panic = TypeAssertion | NilDereference

subsection \<open>The request data and the Query closure\<close>

text \<open>
  \<open>helper.Pager\<close> and the fields of \<open>helper.RequestData\<close> that the closure reads. Both types
  are declared in the helper package; the record is extensible for the remaining fields.
\<close>

record Pager =
  Page :: int
  Skip :: int
  Size :: int

record RequestData =
  Pager :: Pager
  Input :: go_value

text \<open>
  The clause \<open>jql\<close> that \<open>CollectEpics\<close> builds before it constructs the collector, from
  \<open>data.Since\<close>.
\<close>

definition jql :: "Time option \<Rightarrow> string" where
  "jql since =
     (case since of
        None \<Rightarrow> ''ORDER BY created ASC''
      | Some t \<Rightarrow>
          ''updated >= '' @ [CHR 0x27] @ Format_2006_01_02_15_04 t @ [CHR 0x27] @ '' '' @
          ''ORDER BY created ASC'')"

text \<open>
  The loop \<open>for _, e := range ... { epicKeys = append(epicKeys, *e.(*string)) }\<close>: the type
  assertion panics on an element that is not a \<open>*string\<close>, the dereference on a nil pointer.
\<close>

fun epicKeys_loop :: "go_value list \<Rightarrow> string list \<Rightarrow> panic + string list" where
  "epicKeys_loop [] epicKeys = Inr epicKeys"
| "epicKeys_loop (e # es) epicKeys =
     (case e of
        StringPtr p \<Rightarrow>
          (case p of
             None \<Rightarrow> Inl NilDereference
           | Some s \<Rightarrow> epicKeys_loop es (epicKeys @ [s]))
      | _ \<Rightarrow> Inl TypeAssertion)"

text \<open>
  The state the closure can reach: the captured variable \<open>jql\<close> and the request data behind
  the pointer it is given (a \<open>*string\<close> of the input is modelled with its pointee, so a write
  through it would show in \<open>reqData\<close>).
\<close>

record QueryState =
  captured_jql :: string
  reqData :: RequestData

text \<open>
  The \<open>Query\<close> closure. It returns, beside the state it leaves, either a panic or the pair
  \<open>(url.Values, errors.Error)\<close> of the Go function.
\<close>

definition Query :: "QueryState \<Rightarrow> (panic + (Values \<times> Error option)) \<times> QueryState" where
  "Query st =
     (let query = Map.empty in
      case Input (reqData st) of
        SliceIface es \<Rightarrow>
          (case epicKeys_loop es [] of
             Inl p \<Rightarrow> (Inl p, st)
           | Inr epicKeys \<Rightarrow>
               (let localJQL = ''issue in ('' @ Join epicKeys '','' @ '') '' @ captured_jql st;
                    query = Set_value query ''jql'' localJQL;
                    query = Set_value query ''startAt'' (Sprintf_v (Skip (Pager (reqData st))));
                    query = Set_value query ''maxResults'' (Sprintf_v (Size (Pager (reqData st))));
                    query = Set_value query ''expand'' ''changelog''
                in (Inr (query, None), st)))
      | _ \<Rightarrow> (Inl TypeAssertion, st))"

text \<open>
  An input batch as the collector hands it to \<open>Query\<close>: the iterator decodes every row of the
  cursor into a fresh \<open>*string\<close> and the batch is the \<open>[]interface{}\<close> of these pointers.
\<close>

definition batch_input :: "string list \<Rightarrow> go_value" where
  "batch_input keys = SliceIface (map (\<lambda>k. StringPtr (Some k)) keys)"





subsection \<open>The task, the tool-layer tables and the input query\<close>

definition RAW_EPIC_TABLE :: string where
  "RAW_EPIC_TABLE = ''jira_api_epics''"

text \<open>
  The task data \<open>CollectEpics\<close> reads (\<open>JiraTaskData\<close> with its options and \<open>JiraApiParams\<close>
  are declared in other files of the plugin; the identifiers are \<open>uint64\<close>). The API client
  is an opaque handle.
\<close>

record JiraOptions =
  ConnectionId :: "64 word"
  BoardId :: "64 word"

type_synonym ApiAsyncClient = nat

record JiraTaskData =
  Options :: JiraOptions
  ApiClient :: ApiAsyncClient
  Since :: "Time option"

record JiraApiParams =
  Params_ConnectionId :: "64 word"
  Params_BoardId :: "64 word"

text \<open>
  The columns of \<open>_tool_jira_issues\<close> (alias \<open>i\<close>) and \<open>_tool_jira_board_issues\<close> (alias \<open>bi\<close>)
  that the query names. A \<open>Dal\<close> is the two tables and, for a run, the error that opening
  the cursor meets, if any.
\<close>

record JiraIssue =
  i_connection_id :: "64 word"
  i_issue_id :: "64 word"
  i_epic_key :: string

record JiraBoardIssue =
  bi_connection_id :: "64 word"
  bi_board_id :: "64 word"
  bi_issue_id :: "64 word"

record Dal =
  tool_jira_issues :: "JiraIssue list"
  tool_jira_board_issues :: "JiraBoardIssue list"
  cursor_error :: "Error option"

text \<open>The task context: \<open>taskCtx.GetDal()\<close> and \<open>taskCtx.GetData()\<close>.\<close>

record SubTaskContext =
  GetDal :: Dal
  GetData :: JiraTaskData

text \<open>
  The clauses \<open>GetEpicKeysIterator\<close> passes to \<open>db.Cursor\<close> (the white space of the SQL text
  is normalised).
\<close>

datatype Clause =
    dal_Select string
  | dal_From string
  | dal_Join string
  | dal_Where string "64 word list"

definition epic_keys_clauses :: "JiraTaskData \<Rightarrow> Clause list" where
  "epic_keys_clauses data =
     [dal_Select ''DISTINCT epic_key'',
      dal_From ''_tool_jira_issues i'',
      dal_Join (''LEFT JOIN _tool_jira_board_issues bi ON ( '' @
            ''i.connection_id = bi.connection_id AND i.issue_id = bi.issue_id )''),
      dal_Where (''i.connection_id = ? AND bi.board_id = ? AND i.epic_key != '' @ [CHR 0x27, CHR 0x27])
        [ConnectionId (Options data), BoardId (Options data)]]"

text \<open>
  What the statement selects. \<open>LEFT JOIN ... ON\<close> pairs every issue with the board issues of
  the same connection and issue id, or with NULL when there is none; the \<open>WHERE\<close> clause
  keeps a row when the connection id and the board id are the given ones and the epic key
  is not empty (on a row without board issue \<open>bi.board_id = ?\<close> is not true);
  \<open>SELECT DISTINCT epic_key\<close> returns every key once.
\<close>

definition left_join :: "JiraIssue list \<Rightarrow> JiraBoardIssue list \<Rightarrow> (JiraIssue \<times> JiraBoardIssue option) list" where
  "left_join is bis =
     concat (map (\<lambda>i.
       case filter (\<lambda>bi. i_connection_id i = bi_connection_id bi \<and> i_issue_id i = bi_issue_id bi) bis of
         [] \<Rightarrow> [(i, None)]
       | m # ms \<Rightarrow> map (\<lambda>bi. (i, Some bi)) (m # ms)) is)"

definition where_clause :: "64 word \<Rightarrow> 64 word \<Rightarrow> JiraIssue \<times> JiraBoardIssue option \<Rightarrow> bool" where
  "where_clause connectionId boardId row =
     (case row of
        (i, None) \<Rightarrow> False
      | (i, Some bi) \<Rightarrow>
          i_connection_id i = connectionId \<and> bi_board_id bi = boardId \<and> i_epic_key i \<noteq> [])"

definition select_distinct_epic_key :: "(JiraIssue \<times> JiraBoardIssue option) list \<Rightarrow> string list" where
  "select_distinct_epic_key rows = remdups (map (\<lambda>(i, bi). i_epic_key i) rows)"

text \<open>\<open>db.Cursor\<close> on these clauses: the error, or a cursor over the selected keys.\<close>

definition Cursor :: "Dal \<Rightarrow> JiraTaskData \<Rightarrow> Error + string list" where
  "Cursor db data =
     (case cursor_error db of
        Some err \<Rightarrow> Inl err
      | None \<Rightarrow>
          Inr (select_distinct_epic_key
                 (filter (where_clause (ConnectionId (Options data)) (BoardId (Options data)))
                    (left_join (tool_jira_issues db) (tool_jira_board_issues db)))))"

text \<open>
  The iterator \<open>helper.NewBatchedDalCursorIterator(db, cursor, reflect.TypeOf(""), batchSize)\<close>
  returns: it holds the cursor, the element type and the batch size. The helper package is
  not part of this file; of a run, \<open>Helper\<close> gives the errors that the constructors of the
  iterator and of the collector and \<open>collector.Execute\<close> return, if any.
\<close>

record Iterator =
  it_cursor :: "string list"
  it_elemType :: string
  it_batchSize :: int

record Helper =
  NewBatchedDalCursorIterator_err :: "Error option"
  NewApiCollector_err :: "Error option"
  Execute_err :: "Error option"

text \<open>\<open>helper.RawDataSubTaskArgs\<close> and \<open>helper.ApiCollectorArgs\<close>, as \<open>CollectEpics\<close> fills them.\<close>

record RawDataSubTaskArgs =
  Ctx :: SubTaskContext
  Params :: JiraApiParams
  Table :: string

record ApiCollectorArgs =
  RawDataSubTaskArgs :: RawDataSubTaskArgs
  args_ApiClient :: ApiAsyncClient
  PageSize :: int
  Incremental :: bool
  UrlTemplate :: string
  args_Query :: "RequestData \<Rightarrow> (panic + (Values \<times> Error option)) \<times> QueryState"
  args_Input :: Iterator
  GetTotalPages :: string
  Concurrency :: int
  args_ResponseParser :: "Response \<Rightarrow> string list \<times> Error option"

text \<open>The calls a run makes to the DAL and to the helper package, in order.\<close>

datatype event =
    Cursor_call "Clause list"
  | NewBatchedDalCursorIterator_call "string list" string int
  | NewApiCollector_call ApiCollectorArgs
  | Execute_call ApiCollectorArgs

definition GetEpicKeysIterator ::
  "Helper \<Rightarrow> Dal \<Rightarrow> JiraTaskData \<Rightarrow> int \<Rightarrow> (Error + Iterator) \<times> event list" where
  "GetEpicKeysIterator h db data batchSize =
     (case Cursor db data of
        Inl err \<Rightarrow>
          (Inl (Wrap err ''unable to query for external epics''),
           [Cursor_call (epic_keys_clauses data)])
      | Inr cursor \<Rightarrow>
          (case NewBatchedDalCursorIterator_err h of
             Some err \<Rightarrow>
               (Inl err,
                [Cursor_call (epic_keys_clauses data),
                 NewBatchedDalCursorIterator_call cursor ''string'' batchSize])
           | None \<Rightarrow>
               (Inr \<lparr>it_cursor = cursor, it_elemType = ''string'', it_batchSize = batchSize\<rparr>,
                [Cursor_call (epic_keys_clauses data),
                 NewBatchedDalCursorIterator_call cursor ''string'' batchSize])))"

text \<open>The \<open>helper.ApiCollectorArgs\<close> literal of \<open>CollectEpics\<close>.\<close>

definition collector_args :: "SubTaskContext \<Rightarrow> JiraTaskData \<Rightarrow> Iterator \<Rightarrow> string \<Rightarrow> ApiCollectorArgs" where
  "collector_args taskCtx data epicIterator jql_clause =
     \<lparr>RawDataSubTaskArgs =
        \<lparr>Ctx = taskCtx,
         Params = \<lparr>Params_ConnectionId = ConnectionId (Options data),
                   Params_BoardId = BoardId (Options data)\<rparr>,
         Table = RAW_EPIC_TABLE\<rparr>,
      args_ApiClient = ApiClient data,
      PageSize = 100,
      Incremental = False,
      UrlTemplate = ''api/2/search'',
      args_Query = (\<lambda>rd. Query \<lparr>captured_jql = jql_clause, reqData = rd\<rparr>),
      args_Input = epicIterator,
      GetTotalPages = ''GetTotalPagesFromResponse'',
      Concurrency = 10,
      args_ResponseParser = ResponseParser\<rparr>"

definition CollectEpics :: "Helper \<Rightarrow> SubTaskContext \<Rightarrow> Error option \<times> event list" where
  "CollectEpics h taskCtx =
     (let db = GetDal taskCtx;
          data = GetData taskCtx
      in case GetEpicKeysIterator h db data 100 of
           (Inl err, evs) \<Rightarrow> (Some err, evs)
         | (Inr epicIterator, evs) \<Rightarrow>
             (let since = Since data;
                  args = collector_args taskCtx data epicIterator (jql since)
              in case NewApiCollector_err h of
                   Some err \<Rightarrow> (Some err, evs @ [NewApiCollector_call args])
                 | None \<Rightarrow> (Execute_err h, evs @ [NewApiCollector_call args, Execute_call args])))"


subsection \<open>What the response parser is to return\<close>

text \<open>
  The values the field \<open>Issues\<close> accepts, the records an accepted value holds, and the values
  of the members of an object that name the field, in the order of the body.
\<close>

fun array_or_null :: "json \<Rightarrow> bool" where
  "array_or_null (JArray es) = True"
| "array_or_null JNull = True"
| "array_or_null _ = False"

fun records_of :: "json \<Rightarrow> string list" where
  "records_of (JArray es) = map fst es"
| "records_of _ = []"

definition issues_members :: "(string \<times> string \<times> json) list \<Rightarrow> json list" where
  "issues_members ms = map (\<lambda>(key, raw, v). v) (filter (\<lambda>(key, raw, v). issues_field key) ms)"

text \<open>
  A body decodes when it is valid JSON, its value is an object or \<open>null\<close>, and every member
  of the object that names the field \<open>issues\<close> holds an array or \<open>null\<close>. The records of a
  body are those of the last member that names the field.
\<close>

definition decodable :: "string \<Rightarrow> bool" where
  "decodable blob =
     (case checkValid_parse blob of
        Valid v \<Rightarrow>
          (case v of
             JObject ms \<Rightarrow> list_all array_or_null (issues_members ms)
           | JNull \<Rightarrow> True
           | _ \<Rightarrow> False)
      | _ \<Rightarrow> False)"

definition issues_records :: "string \<Rightarrow> string list" where
  "issues_records blob =
     (case checkValid_parse blob of
        Valid v \<Rightarrow>
          (case v of
             JObject ms \<Rightarrow> (case rev (issues_members ms) of [] \<Rightarrow> [] | v # _ \<Rightarrow> records_of v)
           | _ \<Rightarrow> [])
      | _ \<Rightarrow> [])"

text \<open>
  Modelled from the spec: the stop condition of the collector engine's pagination loop (the
  engine, \<open>helper.ApiCollector\<close>, is not in this file), section 4.3: the loop of a batch
  stops when \<open>pageIndex + 1 >= totalPages\<close>, once the total is known, or when the records of
  the current page are empty.
\<close>

definition stop_condition :: "nat \<Rightarrow> nat option \<Rightarrow> string list \<Rightarrow> bool" where
  "stop_condition pageIndex totalPages records =
     ((case totalPages of None \<Rightarrow> False | Some t \<Rightarrow> t \<le> pageIndex + 1) \<or> records = [])"

text \<open>
  A body without records: \<open>null\<close>, or an object in which no member names the field, or in
  which the members that name it hold arrays or \<open>null\<close> and the last of them \<open>null\<close>.
\<close>

definition empty_page_body :: "string \<Rightarrow> bool" where
  "empty_page_body blob =
     (case checkValid_parse blob of
        Valid v \<Rightarrow>
          (case v of
             JObject ms \<Rightarrow>
               list_all array_or_null (issues_members ms) \<and>
               (case rev (issues_members ms) of [] \<Rightarrow> True | w # _ \<Rightarrow> w = JNull)
           | JNull \<Rightarrow> True
           | _ \<Rightarrow> False)
      | _ \<Rightarrow> False)"

subsection \<open>Reading a run\<close>

text \<open>
  The calls that construct or execute the collector (remote requests are issued by
  \<open>Execute\<close> only), and the arguments of the constructions of a run.
\<close>

fun collector_event :: "event \<Rightarrow> bool" where
  "collector_event (NewApiCollector_call a) = True"
| "collector_event (Execute_call a) = True"
| "collector_event _ = False"

fun constructed :: "event list \<Rightarrow> ApiCollectorArgs list" where
  "constructed [] = []"
| "constructed (NewApiCollector_call a # evs) = a # constructed evs"
| "constructed (e # evs) = constructed evs"

text \<open>
  Two collector runs are re-runs of the same logical job when their params and their raw
  table are the same (the invariant of CollectorParams, section 3 of the specification).
\<close>

definition same_job :: "ApiCollectorArgs \<Rightarrow> ApiCollectorArgs \<Rightarrow> bool" where
  "same_job a b =
     (Params (RawDataSubTaskArgs a) = Params (RawDataSubTaskArgs b) \<and>
      Table (RawDataSubTaskArgs a) = Table (RawDataSubTaskArgs b))"


subsection \<open>The worker pool\<close>

text \<open>
  Modelled from the spec: the bounded worker pool of the Concurrent Collector (sections 4.4
  and 5; the collector engine of the helper package is not part of this file). A task is a
  pair of a batch and a page. A task is queued; a queued task starts when a worker slot is
  free, that is, when fewer than \<open>Concurrency\<close> tasks are running; a running task finishes
  and frees its slot. A run of the pool is a sequence of such events, in any interleaving.
\<close>

type_synonym task = "nat \<times> nat"

record pool =
  queue :: "task list"
  running :: "task list"

datatype pool_event = Enqueue task | Start | Finish task

fun pool_step :: "nat \<Rightarrow> pool \<Rightarrow> pool_event \<Rightarrow> pool" where
  "pool_step concurrency p (Enqueue t) = p\<lparr>queue := queue p @ [t]\<rparr>"
| "pool_step concurrency p Start =
     (case queue p of
        [] \<Rightarrow> p
      | t # ts \<Rightarrow>
          if length (running p) < concurrency
          then \<lparr>queue = ts, running = running p @ [t]\<rparr>
          else p)"
| "pool_step concurrency p (Finish t) = p\<lparr>running := remove1 t (running p)\<rparr>"

definition run_pool :: "nat \<Rightarrow> pool_event list \<Rightarrow> pool" where
  "run_pool concurrency evs = foldl (pool_step concurrency) \<lparr>queue = [], running = []\<rparr> evs"

subsection \<open>Two runs\<close>

text \<open>
  Two task contexts for board 5 of connection 1, with different tables and Since values,
  and the helper of a run in which nothing fails.
\<close>

definition example_ctx :: "Error option \<Rightarrow> SubTaskContext" where
  "example_ctx e =
     \<lparr>GetDal =
        \<lparr>tool_jira_issues =
           [\<lparr>i_connection_id = 1, i_issue_id = 10, i_epic_key = ''EPIC-1''\<rparr>,
            \<lparr>i_connection_id = 1, i_issue_id = 11, i_epic_key = ''EPIC-1''\<rparr>,
            \<lparr>i_connection_id = 1, i_issue_id = 12, i_epic_key = []\<rparr>,
            \<lparr>i_connection_id = 1, i_issue_id = 13, i_epic_key = ''EPIC-2''\<rparr>,
            \<lparr>i_connection_id = 2, i_issue_id = 10, i_epic_key = ''EPIC-3''\<rparr>],
         tool_jira_board_issues =
           [\<lparr>bi_connection_id = 1, bi_board_id = 5, bi_issue_id = 10\<rparr>,
            \<lparr>bi_connection_id = 1, bi_board_id = 5, bi_issue_id = 11\<rparr>,
            \<lparr>bi_connection_id = 1, bi_board_id = 5, bi_issue_id = 12\<rparr>,
            \<lparr>bi_connection_id = 1, bi_board_id = 6, bi_issue_id = 13\<rparr>,
            \<lparr>bi_connection_id = 2, bi_board_id = 5, bi_issue_id = 10\<rparr>],
         cursor_error = e\<rparr>,
      GetData = \<lparr>Options = \<lparr>ConnectionId = 1, BoardId = 5\<rparr>, ApiClient = 0, Since = None\<rparr>\<rparr>"

definition example_ctx_since :: SubTaskContext where
  "example_ctx_since =
     \<lparr>GetDal = \<lparr>tool_jira_issues = [], tool_jira_board_issues = [], cursor_error = None\<rparr>,
      GetData =
        \<lparr>Options = \<lparr>ConnectionId = 1, BoardId = 5\<rparr>, ApiClient = 1,
         Since = Some \<lparr>Year = 2022, Month = 3, Day = 7, Hour = 9, Minute = 5\<rparr>\<rparr>\<rparr>"

definition example_helper :: "Error option \<Rightarrow> Helper" where
  "example_helper e =
     \<lparr>NewBatchedDalCursorIterator_err = e, NewApiCollector_err = None, Execute_err = None\<rparr>"

section \<open>Properties\<close>

subsection \<open>Decimal renderings\<close>

text \<open>The rendering of an \<open>int\<close> by \<open>%v\<close> determines the number.\<close>

lemma less_10_cases:
  "d < 10 \<Longrightarrow> d = 0 \<or> d = 1 \<or> d = 2 \<or> d = 3 \<or> d = 4 \<or> d = 5 \<or> d = 6 \<or> d = 7 \<or> d = 8 \<or> d = (9::nat)"
  by arith

lemma of_char_digit_char:
  assumes "d < 10"
  shows "of_char (digit_char d) = 48 + d"
  using less_10_cases [OF assms] by (elim disjE) (simp_all add: digit_char_def)

lemma digit_char_inj:
  assumes "a < 10" and "b < 10" and "digit_char a = digit_char b"
  shows "a = b"
proof -
  have "48 + a = (of_char (digit_char a) :: nat)"
    using of_char_digit_char [OF assms(1)] by simp
  also have "\<dots> = 48 + b"
    unfolding assms(3) using of_char_digit_char [OF assms(2)] by simp
  finally show ?thesis by simp
qed

lemma digit_char_not_minus:
  assumes "d < 10"
  shows "digit_char d \<noteq> CHR ''-''"
proof
  assume "digit_char d = CHR ''-''"
  then have "(of_char (digit_char d) :: nat) = 45" by simp
  with of_char_digit_char [OF assms] show False by simp
qed

lemma digits_not_Nil: "digits n \<noteq> []"
  by (subst digits.simps) simp

lemma hd_digits: "hd (digits n) \<noteq> CHR ''-''"
proof (induction n rule: digits.induct)
  case (1 n)
  show ?case
  proof (cases "n < 10")
    case True
    then show ?thesis by (subst digits.simps) (simp add: digit_char_not_minus)
  next
    case False
    then show ?thesis using 1 by (subst digits.simps) (simp add: digits_not_Nil)
  qed
qed

lemma digits_inj: "digits n = digits m \<Longrightarrow> n = m"
proof (induction n arbitrary: m rule: digits.induct)
  case (1 n)
  show ?case
  proof (cases "n < 10")
    case True
    then have n: "digits n = [digit_char n]" by (subst digits.simps) simp
    show ?thesis
    proof (cases "m < 10")
      case True
      then have "digits m = [digit_char m]" by (subst digits.simps) simp
      with n 1(2) \<open>n < 10\<close> True show ?thesis by (simp add: digit_char_inj)
    next
      case False
      then have "digits m = digits (m div 10) @ [digit_char (m mod 10)]"
        by (subst digits.simps) simp
      with n 1(2) show ?thesis by (simp add: digits_not_Nil)
    qed
  next
    case False
    then have n: "digits n = digits (n div 10) @ [digit_char (n mod 10)]"
      by (subst digits.simps) simp
    show ?thesis
    proof (cases "m < 10")
      case True
      then have "digits m = [digit_char m]" by (subst digits.simps) simp
      with n 1(2) show ?thesis by (simp add: digits_not_Nil [symmetric])
    next
      case m: False
      then have "digits m = digits (m div 10) @ [digit_char (m mod 10)]"
        by (subst digits.simps) simp
      with n 1(2) have d: "digits (n div 10) = digits (m div 10)"
        and c: "digit_char (n mod 10) = digit_char (m mod 10)" by simp_all
      have "n div 10 = m div 10" using 1(1) [OF False d] .
      moreover have "n mod 10 = m mod 10" using c by (simp add: digit_char_inj)
      ultimately show ?thesis by (metis div_mult_mod_eq)
    qed
  qed
qed

lemma Sprintf_v_inj: "Sprintf_v x = Sprintf_v y \<Longrightarrow> x = y"
proof -
  assume a: "Sprintf_v x = Sprintf_v y"
  have neg: "hd (Sprintf_v z) = CHR ''-'' \<longleftrightarrow> z < 0" for z
    using hd_digits [of "nat z"] by (simp add: Sprintf_v_def)
  from a have s: "x < 0 \<longleftrightarrow> y < 0" using neg by metis
  show ?thesis
  proof (cases "x < 0")
    case True
    with s a have "digits (nat (- x)) = digits (nat (- y))" by (simp add: Sprintf_v_def)
    then have "nat (- x) = nat (- y)" by (rule digits_inj)
    with True s show ?thesis by simp
  next
    case False
    with s a have "digits (nat x) = digits (nat y)" by (simp add: Sprintf_v_def)
    then have "nat x = nat y" by (rule digits_inj)
    with False s show ?thesis by simp
  qed
qed

subsection \<open>The Query closure\<close>








text \<open>
  C8. \<open>Query\<close> is deterministic and free of side effects: it leaves the captured clause and
  the request data (the input batch and the pager) as it found them, and two calls with the
  same captured clause, equal inputs and pagers that agree on Skip and Size return the same
  result.
\<close>

theorem Query_deterministic_pure:
  "snd (Query st) = st \<and>
   (captured_jql st = captured_jql st' \<and> Input (reqData st) = Input (reqData st') \<and>
    Skip (Pager (reqData st)) = Skip (Pager (reqData st')) \<and>
    Size (Pager (reqData st)) = Size (Pager (reqData st'))
    \<longrightarrow> fst (Query st) = fst (Query st'))"
  by (simp add: Query_def Let_def split: go_value.splits sum.splits)

theorem Query_deterministic_pure_witness:
  "snd (Query \<lparr>captured_jql = jql None,
                reqData = \<lparr>Pager = \<lparr>Page = 1, Skip = 0, Size = 100\<rparr>,
                           Input = batch_input [''EPIC-1'', ''EPIC-2'']\<rparr>\<rparr>)
     = \<lparr>captured_jql = jql None,
        reqData = \<lparr>Pager = \<lparr>Page = 1, Skip = 0, Size = 100\<rparr>,
                   Input = batch_input [''EPIC-1'', ''EPIC-2'']\<rparr>\<rparr>
   \<and> fst (Query \<lparr>captured_jql = jql None,
                  reqData = \<lparr>Pager = \<lparr>Page = 1, Skip = 0, Size = 100\<rparr>,
                             Input = batch_input [''EPIC-1'', ''EPIC-2'']\<rparr>\<rparr>)
     = fst (Query \<lparr>captured_jql = jql None,
                    reqData = \<lparr>Pager = \<lparr>Page = 7, Skip = 0, Size = 100\<rparr>,
                               Input = batch_input [''EPIC-1'', ''EPIC-2'']\<rparr>\<rparr>)"
  using Query_deterministic_pure
    [of "\<lparr>captured_jql = jql None,
          reqData = \<lparr>Pager = \<lparr>Page = 1, Skip = 0, Size = 100\<rparr>,
                     Input = batch_input [''EPIC-1'', ''EPIC-2'']\<rparr>\<rparr>"
        "\<lparr>captured_jql = jql None,
          reqData = \<lparr>Pager = \<lparr>Page = 7, Skip = 0, Size = 100\<rparr>,
                     Input = batch_input [''EPIC-1'', ''EPIC-2'']\<rparr>\<rparr>"]
  by simp




subsection \<open>The scanner has fuel enough\<close>

text \<open>
  Every successful scan consumes input, so the fuel \<open>checkValid_parse\<close> starts with is never
  used up: a body is valid or invalid, as for \<open>checkValid\<close>.
\<close>

lemma scan_string_shorter: "scan_string cs = Some (str, r) \<Longrightarrow> length r < length cs"
proof (induction cs arbitrary: str r rule: scan_string.induct)
  case 1
  then show ?case by simp
next
  case (2 c cs)
  then show ?case
    by (fastforce split: if_splits list.splits option.splits)
qed

lemma scan_exp_shorter: "scan_exp s = Some r \<Longrightarrow> length r \<le> length s"
  by (auto simp: scan_exp_def Let_def split: list.splits if_splits
      intro: le_trans [OF length_dropWhile_le] le_SucI)

lemma scan_frac_shorter: "scan_frac s = Some r \<Longrightarrow> length r \<le> length s"
  by (auto simp: scan_frac_def split: list.splits if_splits dest!: scan_exp_shorter
      intro: le_trans [OF _ length_dropWhile_le] le_SucI)


lemma scan_number_shorter: "scan_number s = Some r \<Longrightarrow> length r < length s"
proof -
  assume a: "scan_number s = Some r"
  let ?s1 = "case s of [] \<Rightarrow> [] | c # r \<Rightarrow> if c = CHR ''-'' then r else s"
  have s1: "length ?s1 \<le> length s" by (cases s) auto
  from a obtain c t where c: "?s1 = c # t"
    by (cases ?s1) (auto simp: scan_number_def Let_def)
  from a c have "scan_frac t = Some r \<or> scan_frac (dropWhile isDigit t) = Some r"
    by (auto simp: scan_number_def Let_def split: if_splits)
  then have "length r \<le> length t"
    using scan_frac_shorter le_trans [OF _ length_dropWhile_le] by blast
  with c s1 show ?thesis by simp
qed

lemma scan_literal_shorter: "scan_literal lit s = Some r \<Longrightarrow> lit \<noteq> [] \<Longrightarrow> length r < length s"
  by (cases lit; cases s) (auto simp: scan_literal_def split: if_splits)

lemma parse_shorter:
  "(\<forall>d s v r. parse_value n d s = Valid (v, r) \<longrightarrow> length r < length s) \<and>
   (\<forall>d s vs r. parse_elems n d s = Valid (vs, r) \<longrightarrow> length r < length s) \<and>
   (\<forall>d s ms r. parse_members n d s = Valid (ms, r) \<longrightarrow> length r < length s)"
proof (induction n)
  case 0
  show ?case by simp
next
  case (Suc n)
  have v: "length r < length s" if "parse_value n d s = Valid (v, r)" for d s v r
    using Suc that by blast
  have e: "length r < length s" if "parse_elems n d s = Valid (vs, r)" for d s vs r
    using Suc that by blast
  have m: "length r < length s" if "parse_members n d s = Valid (ms, r)" for d s ms r
    using Suc that by blast
  have dw: "length r < length s" if "dropWhile isSpace s = c # r" for s c r
    using length_dropWhile_le [of isSpace s] that by simp
  have dw2: "length r < length s" if "dropWhile isSpace s = c # r'" "length r \<le> length r'" for s c r r'
    using length_dropWhile_le [of isSpace s] that by simp
  have 1: "length r < length s" if a: "parse_value (Suc n) d s = Valid (v, r)" for d s v r
  proof -
    obtain c cs where s0: "dropWhile isSpace s = c # cs"
      using a by (cases "dropWhile isSpace s") (auto simp: Let_def simp del: dropWhile_eq_Nil_conv)
    have le: "length (c # cs) \<le> length s"
      using length_dropWhile_le [of isSpace s] s0 by simp
    have "length r < length (c # cs)"
      using a s0
      by (auto simp: Let_def split: if_splits list.splits scan.splits option.splits prod.splits
          dest!: m e scan_string_shorter scan_number_shorter scan_literal_shorter dw)
    with le show ?thesis by simp
  qed
  have 2: "length r < length s" if a: "parse_elems (Suc n) d s = Valid (vs, r)" for d s vs r
  proof -
    obtain x r0 where p: "parse_value n d s = Valid (x, r0)"
      using a by (cases "parse_value n d s") (auto split: prod.splits)
    obtain c r1 where s1: "dropWhile isSpace r0 = c # r1"
      using a p by (cases "dropWhile isSpace r0") (auto simp del: dropWhile_eq_Nil_conv)
    have "length r \<le> length r1"
      using a p s1 by (auto split: if_splits scan.splits prod.splits dest!: e)
    with dw [OF s1] v [OF p] show ?thesis by simp
  qed
  have 3: "length r < length s" if a: "parse_members (Suc n) d s = Valid (ms, r)" for d s ms r
  proof -
    obtain q cs where s0: "dropWhile isSpace s = q # cs"
      using a by (cases "dropWhile isSpace s") (auto simp del: dropWhile_eq_Nil_conv)
    obtain key r0 where k: "scan_string cs = Some (key, r0)"
      using a s0 by (cases "scan_string cs") (auto split: if_splits)
    obtain col r1 where s1: "dropWhile isSpace r0 = col # r1"
      using a s0 k
      by (cases "dropWhile isSpace r0") (auto simp del: dropWhile_eq_Nil_conv split: if_splits)
    obtain raw x r2 where p: "parse_value n d r1 = Valid ((raw, x), r2)"
      using a s0 k s1 by (cases "parse_value n d r1") (auto split: if_splits prod.splits)
    obtain c r3 where s3: "dropWhile isSpace r2 = c # r3"
      using a s0 k s1 p
      by (cases "dropWhile isSpace r2") (auto simp del: dropWhile_eq_Nil_conv split: if_splits)
    have "length r \<le> length r3"
      using a s0 k s1 p s3 by (auto split: if_splits scan.splits prod.splits dest!: m)
    with dw [OF s3] v [OF p] dw [OF s1] scan_string_shorter [OF k] dw [OF s0]
    show ?thesis by simp
  qed
  show ?case using 1 2 3 by blast
qed


lemma parse_value_shorter: "parse_value n d s = Valid (v, r) \<Longrightarrow> length r < length s"
  using parse_shorter [of n] by blast

lemma parse_fuel:
  "(\<forall>d s. 2 * length s + 1 \<le> n \<longrightarrow> parse_value n d s \<noteq> OutOfFuel) \<and>
   (\<forall>d s. 2 * length s + 2 \<le> n \<longrightarrow> parse_elems n d s \<noteq> OutOfFuel) \<and>
   (\<forall>d s. 2 * length s + 2 \<le> n \<longrightarrow> parse_members n d s \<noteq> OutOfFuel)"
proof (induction n)
  case 0
  show ?case by simp
next
  case (Suc n)
  have v: "parse_value n d s \<noteq> OutOfFuel" if "2 * length s + 1 \<le> n" for d s
    using Suc that by blast
  have e: "parse_elems n d s \<noteq> OutOfFuel" if "2 * length s + 2 \<le> n" for d s
    using Suc that by blast
  have m: "parse_members n d s \<noteq> OutOfFuel" if "2 * length s + 2 \<le> n" for d s
    using Suc that by blast
  have dw: "length r < length s" if "dropWhile isSpace s = c # r" for s c r
    using length_dropWhile_le [of isSpace s] that by simp
  have 1: "parse_value (Suc n) d s \<noteq> OutOfFuel" if b: "2 * length s + 1 \<le> Suc n" for d s
  proof
    assume a: "parse_value (Suc n) d s = OutOfFuel"
    obtain c cs where s0: "dropWhile isSpace s = c # cs"
      using a by (cases "dropWhile isSpace s") (auto simp: Let_def simp del: dropWhile_eq_Nil_conv)
    have "2 * length cs + 2 \<le> n" using dw [OF s0] b by simp
    then have ne: "parse_elems n (Suc d) cs \<noteq> OutOfFuel" "parse_members n (Suc d) cs \<noteq> OutOfFuel"
      using e m by blast+
    have "parse_elems n (Suc d) cs = OutOfFuel \<or> parse_members n (Suc d) cs = OutOfFuel"
      using a s0
      by (simp add: Let_def split: if_splits list.splits scan.splits option.splits prod.splits)
    with ne show False by blast
  qed
  have 2: "parse_elems (Suc n) d s \<noteq> OutOfFuel" if b: "2 * length s + 2 \<le> Suc n" for d s
  proof
    assume a: "parse_elems (Suc n) d s = OutOfFuel"
    have pv: "parse_value n d s \<noteq> OutOfFuel" using v b by simp
    then obtain x r0 where p: "parse_value n d s = Valid (x, r0)"
      using a by (cases "parse_value n d s") auto
    obtain c r1 where s1: "dropWhile isSpace r0 = c # r1"
      using a p by (cases "dropWhile isSpace r0") (auto simp del: dropWhile_eq_Nil_conv)
    have "2 * length r1 + 2 \<le> n"
      using dw [OF s1] parse_value_shorter [OF p] b by simp
    then have "parse_elems n d r1 \<noteq> OutOfFuel" using e by blast
    then show False
      using a p s1 by (auto split: if_splits scan.splits prod.splits)
  qed
  have 3: "parse_members (Suc n) d s \<noteq> OutOfFuel" if b: "2 * length s + 2 \<le> Suc n" for d s
  proof
    assume a: "parse_members (Suc n) d s = OutOfFuel"
    obtain q cs where s0: "dropWhile isSpace s = q # cs"
      using a by (cases "dropWhile isSpace s") (auto simp del: dropWhile_eq_Nil_conv)
    obtain key r0 where k: "scan_string cs = Some (key, r0)"
      using a s0 by (cases "scan_string cs") (auto split: if_splits)
    obtain col r1 where s1: "dropWhile isSpace r0 = col # r1"
      using a s0 k
      by (cases "dropWhile isSpace r0") (auto simp del: dropWhile_eq_Nil_conv split: if_splits)
    have l1: "length r1 < length s"
      using dw [OF s1] scan_string_shorter [OF k] dw [OF s0] by simp
    then have "parse_value n d r1 \<noteq> OutOfFuel" using v b by simp
    then obtain raw x r2 where p: "parse_value n d r1 = Valid ((raw, x), r2)"
      using a s0 k s1 by (cases "parse_value n d r1") (auto split: if_splits prod.splits)
    obtain c r3 where s3: "dropWhile isSpace r2 = c # r3"
      using a s0 k s1 p
      by (cases "dropWhile isSpace r2") (auto simp del: dropWhile_eq_Nil_conv split: if_splits)
    have "2 * length r3 + 2 \<le> n"
      using dw [OF s3] parse_value_shorter [OF p] l1 b by simp
    then have "parse_members n d r3 \<noteq> OutOfFuel" using m by blast
    then show False
      using a s0 k s1 p s3 by (auto split: if_splits scan.splits prod.splits)
  qed
  show ?case using 1 2 3 by blast
qed

lemma checkValid_parse_fuel: "checkValid_parse s \<noteq> OutOfFuel"
proof -
  have "parse_value (2 * length s + 1) 0 s \<noteq> OutOfFuel"
    using parse_fuel [of "2 * length s + 1"] by blast
  then show ?thesis
    by (auto simp: checkValid_parse_def split: scan.splits prod.splits)
qed

subsection \<open>The response parser\<close>

lemma store_Issues_error:
  "(savedError (store_Issues v d) = None) = (savedError d = None \<and> array_or_null v)"
  by (cases v) (simp_all add: store_Issues_def saveError_def)

lemma store_Issues_records:
  "array_or_null v \<Longrightarrow> Issues (store_Issues v d) = records_of v"
  by (cases v) (simp_all add: store_Issues_def)

lemma object_loop_error:
  "(savedError (object_loop ms d) = None)
     = (savedError d = None \<and> list_all array_or_null (issues_members ms))"
proof (induction ms arbitrary: d)
  case Nil
  show ?case by (simp add: issues_members_def)
next
  case (Cons m ms)
  obtain key raw v where m: "m = (key, raw, v)" by (cases m)
  show ?case
    using Cons.IH [of "if issues_field key then store_Issues v d else d"]
    by (auto simp: m issues_members_def store_Issues_error)
qed

lemma object_loop_Issues:
  "list_all array_or_null (issues_members ms) \<Longrightarrow>
   Issues (object_loop ms d)
     = (case rev (issues_members ms) of [] \<Rightarrow> Issues d | v # _ \<Rightarrow> records_of v)"
proof (induction ms arbitrary: d)
  case Nil
  show ?case by (simp add: issues_members_def)
next
  case (Cons m ms)
  obtain key raw v where m: "m = (key, raw, v)" by (cases m)
  show ?case
  proof (cases "issues_field key")
    case False
    then show ?thesis using Cons by (simp add: m issues_members_def)
  next
    case True
    have all: "list_all array_or_null (issues_members ms)" and v: "array_or_null v"
      using Cons.prems True by (simp_all add: m issues_members_def)
    have "Issues (object_loop (m # ms) d)
        = (case rev (issues_members ms) of [] \<Rightarrow> records_of v | w # _ \<Rightarrow> records_of w)"
      using Cons.IH [OF all, of "store_Issues v d"] True v
      by (simp add: m store_Issues_records split: list.splits)
    also have "\<dots> = (case rev (issues_members (m # ms)) of [] \<Rightarrow> Issues d | w # _ \<Rightarrow> records_of w)"
      using True by (cases "rev (issues_members ms)") (simp_all add: m issues_members_def)
    finally show ?thesis .
  qed
qed

lemma Unmarshal_error: "(snd (Unmarshal blob) = None) = decodable blob"
  by (simp add: Unmarshal_def decodable_def object_loop_error Let_def
      split: scan.splits json.splits)

lemma Unmarshal_records: "decodable blob \<Longrightarrow> fst (Unmarshal blob) = issues_records blob"
  by (auto simp: Unmarshal_def decodable_def issues_records_def object_loop_Issues Let_def
      split: scan.splits json.splits list.splits)

lemma ResponseParser_result:
  "ResponseParser res =
     (if snd (ReadAll (Body res)) = None \<and> decodable (fst (ReadAll (Body res)))
      then (issues_records (fst (ReadAll (Body res))), None)
      else ([], snd (ResponseParser res)))"
  using Unmarshal_error [of "fst (ReadAll (Body res))"]
    Unmarshal_records [of "fst (ReadAll (Body res))"]
  by (cases "ReadAll (Body res)"; cases "Unmarshal (fst (ReadAll (Body res)))")
    (auto simp: ResponseParser_def split: option.splits)

lemma ResponseParser_error:
  "(snd (ResponseParser res) \<noteq> None)
     = (snd (ReadAll (Body res)) \<noteq> None \<or> \<not> decodable (fst (ReadAll (Body res))))"
  using Unmarshal_error [of "fst (ReadAll (Body res))"]
  by (cases "ReadAll (Body res)"; cases "Unmarshal (fst (ReadAll (Body res)))")
    (auto simp: ResponseParser_def split: option.splits)


text \<open>A response read in two chunks: the records are the elements of \<open>issues\<close>, in order.\<close>

lemma ResponseParser_example:
  \<open>ResponseParser
      \<lparr>Body = Data ''{"total": 3, "iss'' (Data ''ues": [ {"id": "1"} , null,3 ]}'' EOF)\<rparr>
   = ([''{"id": "1"}'', ''null'', ''3''], None)\<close>
  by code_simp

text \<open>
  C2, as stated, fails: the body \<open>{}\<close> is read without error and is a JSON object with no
  \<open>issues\<close> field, and the parser returns no error (and no records).
\<close>

theorem ResponseParser_object_without_issues:
  \<open>ReadAll (Data ''{}'' EOF) = (''{}'', None)
   \<and> checkValid_parse ''{}'' = Valid (JObject [])
   \<and> ResponseParser \<lparr>Body = Data ''{}'' EOF\<rparr> = ([], None)\<close>
  by code_simp

text \<open>
  C2, amended. The parser returns an error if and only if reading the body fails or the body
  does not decode (stated for the nil error: reading succeeds and the body decodes), that is,
  it is not valid JSON, or its value is neither an object nor \<open>null\<close>, or a
  member of the object that names the field \<open>issues\<close> (up to the case of the letters) holds
  something other than an array or \<open>null\<close>. Otherwise it returns the records of the last
  member that names the field, in the order of the body (none when there is no such member,
  when it holds \<open>null\<close>, or when the body is \<open>null\<close>). With an error it returns no records.
\<close>

theorem ResponseParser_error_iff_undecodable:
  "(snd (ResponseParser res) = None)
     = (snd (ReadAll (Body res)) = None \<and> decodable (fst (ReadAll (Body res))))
   \<and> fst (ResponseParser res)
     = (if snd (ResponseParser res) = None then issues_records (fst (ReadAll (Body res)))
        else [])"
  using ResponseParser_result [of res] ResponseParser_error [of res]
  by (metis fst_conv)

text \<open>
  C10, as stated, fails: the body \<open>[]\<close> is valid JSON and has no \<open>issues\<close> field, and the
  parser returns an error.
\<close>

theorem ResponseParser_array_body:
  \<open>ReadAll (Data ''[]'' EOF) = (''[]'', None)
   \<and> checkValid_parse ''[]'' = Valid (JArray [])
   \<and> ResponseParser \<lparr>Body = Data ''[]'' EOF\<rparr>
     = ([], Some (Convert (UnmarshalTypeError ''array'')))\<close>
  by code_simp

text \<open>
  C10, amended. For every body that is read without error and is the JSON value \<open>null\<close>, or
  a JSON object in which no member names the field \<open>issues\<close> (up to the case of the letters),
  or one in which the members that name it hold arrays or \<open>null\<close> and the last of them
  \<open>null\<close>, the parser returns no records and no error; under the engine's stop condition
  this is an empty page, which ends the pagination of the batch.
\<close>

theorem ResponseParser_empty_page:
  assumes "snd (ReadAll (Body res)) = None" and "empty_page_body (fst (ReadAll (Body res)))"
  shows "ResponseParser res = ([], None)
    \<and> stop_condition pageIndex totalPages (fst (ResponseParser res))"
proof -
  have dec: "decodable (fst (ReadAll (Body res)))"
    using assms(2)
    by (auto simp: empty_page_body_def decodable_def split: scan.splits json.splits)
  have "issues_records (fst (ReadAll (Body res))) = []"
    using assms(2)
    by (auto simp: empty_page_body_def issues_records_def
        split: scan.splits json.splits list.splits)
  with dec assms(1) have "ResponseParser res = ([], None)"
    using ResponseParser_result [of res] by simp
  then show ?thesis by (simp add: stop_condition_def)
qed

theorem ResponseParser_empty_page_witness:
  \<open>ResponseParser \<lparr>Body = Data ''{"total": 0, "issues": null}'' EOF\<rparr> = ([], None)
   \<and> stop_condition 0 None
       (fst (ResponseParser \<lparr>Body = Data ''{"total": 0, "issues": null}'' EOF\<rparr>))\<close>
proof -
  have h1: \<open>snd (ReadAll (Body \<lparr>Body = Data ''{"total": 0, "issues": null}'' EOF\<rparr>)) = None\<close>
    by simp
  have h2: \<open>empty_page_body
      (fst (ReadAll (Body \<lparr>Body = Data ''{"total": 0, "issues": null}'' EOF\<rparr>)))\<close>
    by code_simp
  show ?thesis using ResponseParser_empty_page [OF h1 h2, of 0 None] .
qed

subsection \<open>The input query and the run of CollectEpics\<close>



lemma constructed_CollectEpics:
  "constructed (snd (CollectEpics h taskCtx)) =
     (case fst (GetEpicKeysIterator h (GetDal taskCtx) (GetData taskCtx) 100) of
        Inl err \<Rightarrow> []
      | Inr it \<Rightarrow> [collector_args taskCtx (GetData taskCtx) it (jql (Since (GetData taskCtx)))])"
  by (auto simp: CollectEpics_def GetEpicKeysIterator_def Let_def split: sum.splits option.splits)

text \<open>
  C3. If the input query fails, \<open>CollectEpics\<close> returns that error, wrapped with the message
  of \<open>GetEpicKeysIterator\<close>; if the batched cursor iterator cannot be constructed, it returns
  that error as it is. In both cases the run ends there: the collector is neither
  constructed nor executed, so no remote request is issued.
\<close>

theorem CollectEpics_source_query_error:
  "(cursor_error (GetDal taskCtx) = Some e \<longrightarrow>
      fst (CollectEpics h taskCtx) = Some (Wrap e ''unable to query for external epics'') \<and>
      \<not> list_ex collector_event (snd (CollectEpics h taskCtx)))
   \<and> (cursor_error (GetDal taskCtx) = None \<and> NewBatchedDalCursorIterator_err h = Some e \<longrightarrow>
      fst (CollectEpics h taskCtx) = Some e \<and>
      \<not> list_ex collector_event (snd (CollectEpics h taskCtx)))"
  by (auto simp: CollectEpics_def GetEpicKeysIterator_def Cursor_def Let_def)

theorem CollectEpics_source_query_error_witness:
  "(fst (CollectEpics (example_helper None) (example_ctx (Some (Raised ''connection lost''))))
      = Some (Wrap (Raised ''connection lost'') ''unable to query for external epics'')
    \<and> \<not> list_ex collector_event
        (snd (CollectEpics (example_helper None) (example_ctx (Some (Raised ''connection lost''))))))
   \<and> (fst (CollectEpics (example_helper (Some (Raised ''no cursor''))) (example_ctx None))
      = Some (Raised ''no cursor'')
    \<and> \<not> list_ex collector_event
        (snd (CollectEpics (example_helper (Some (Raised ''no cursor''))) (example_ctx None))))"
  using CollectEpics_source_query_error
      [of "example_ctx (Some (Raised ''connection lost''))" "Raised ''connection lost''"
          "example_helper None"]
    CollectEpics_source_query_error
      [of "example_ctx None" "Raised ''no cursor''" "example_helper (Some (Raised ''no cursor''))"]
  by (simp add: example_ctx_def example_helper_def)

text \<open>
  C6. Whenever \<open>CollectEpics\<close> constructs the collector, \<open>Incremental\<close> is false, the params
  are exactly the connection id and the board id of the task options, and the raw table is
  \<open>jira_api_epics\<close>. Hence two runs whose options have the same connection id and board id
  are re-runs of the same logical job.
\<close>

theorem CollectEpics_collector_identity:
  "(\<forall>a \<in> set (constructed (snd (CollectEpics h taskCtx))).
      Incremental a = False \<and>
      Params (RawDataSubTaskArgs a) =
        \<lparr>Params_ConnectionId = ConnectionId (Options (GetData taskCtx)),
         Params_BoardId = BoardId (Options (GetData taskCtx))\<rparr> \<and>
      Table (RawDataSubTaskArgs a) = ''jira_api_epics'')
   \<and> (ConnectionId (Options (GetData taskCtx)) = ConnectionId (Options (GetData taskCtx')) \<and>
       BoardId (Options (GetData taskCtx)) = BoardId (Options (GetData taskCtx')) \<longrightarrow>
       (\<forall>a \<in> set (constructed (snd (CollectEpics h taskCtx))).
        \<forall>b \<in> set (constructed (snd (CollectEpics h' taskCtx'))). same_job a b))"
  unfolding constructed_CollectEpics
  by (auto simp: collector_args_def same_job_def RAW_EPIC_TABLE_def split: sum.splits)

theorem CollectEpics_collector_identity_witness:
  "constructed (snd (CollectEpics (example_helper None) (example_ctx None))) \<noteq> []
   \<and> constructed (snd (CollectEpics (example_helper None) example_ctx_since)) \<noteq> []
   \<and> Incremental (hd (constructed (snd (CollectEpics (example_helper None) (example_ctx None)))))
       = False
   \<and> Params (RawDataSubTaskArgs
        (hd (constructed (snd (CollectEpics (example_helper None) (example_ctx None))))))
       = \<lparr>Params_ConnectionId = 1, Params_BoardId = 5\<rparr>
   \<and> Table (RawDataSubTaskArgs
        (hd (constructed (snd (CollectEpics (example_helper None) (example_ctx None))))))
       = ''jira_api_epics''
   \<and> same_job
        (hd (constructed (snd (CollectEpics (example_helper None) (example_ctx None)))))
        (hd (constructed (snd (CollectEpics (example_helper None) example_ctx_since))))"
proof -
  have a: "constructed (snd (CollectEpics (example_helper None) (example_ctx None))) \<noteq> []"
    by (simp add: constructed_CollectEpics GetEpicKeysIterator_def Cursor_def
        example_ctx_def example_helper_def)
  have b: "constructed (snd (CollectEpics (example_helper None) example_ctx_since)) \<noteq> []"
    by (simp add: constructed_CollectEpics GetEpicKeysIterator_def Cursor_def
        example_ctx_since_def example_helper_def)
  have o: "ConnectionId (Options (GetData (example_ctx None)))
        = ConnectionId (Options (GetData example_ctx_since))
      \<and> BoardId (Options (GetData (example_ctx None)))
        = BoardId (Options (GetData example_ctx_since))"
    by (simp add: example_ctx_def example_ctx_since_def)
  have p: "Options (GetData (example_ctx None)) = \<lparr>ConnectionId = 1, BoardId = 5\<rparr>"
    by (simp add: example_ctx_def)
  show ?thesis
    using CollectEpics_collector_identity
      [of "example_helper None" "example_ctx None" example_ctx_since "example_helper None"]
      hd_in_set [OF a] hd_in_set [OF b] a b o p
    by simp
qed



subsection \<open>The worker pool\<close>

lemma pool_step_bound:
  "length (running p) \<le> c \<Longrightarrow> length (running (pool_step c p ev)) \<le> c"
proof (cases ev)
  case (Finish t)
  assume "length (running p) \<le> c"
  moreover have "length (remove1 t (running p)) \<le> length (running p)"
    by (simp add: length_remove1)
  ultimately show ?thesis using Finish by simp
qed (auto split: list.splits)

lemma foldl_pool_bound:
  "length (running p) \<le> c \<Longrightarrow> length (running (foldl (pool_step c) p evs)) \<le> c"
  by (induction evs arbitrary: p) (simp_all add: pool_step_bound)

text \<open>
  C5. \<open>CollectEpics\<close> sets \<open>Concurrency\<close> to 10, and in every run of a worker pool of that
  size, at every moment, at most 10 tasks are running.
\<close>

theorem worker_pool_bounded:
  "Concurrency (collector_args taskCtx data epicIterator j) = 10
   \<and> length (running (run_pool (nat (Concurrency (collector_args taskCtx data epicIterator j))) evs))
       \<le> 10"
proof -
  have c: "Concurrency (collector_args taskCtx data epicIterator j) = 10"
    by (simp add: collector_args_def)
  have "length (running (run_pool 10 evs)) \<le> 10"
    unfolding run_pool_def by (rule foldl_pool_bound) simp
  with c show ?thesis by simp
qed

end
